theory Spec2Isabelle
  imports Complex_Main
begin

section \<open>Python values, strings and builtins used by app.py\<close>

text \<open>
  A Python \<open>str\<close> is modelled as a \<open>string\<close> whose characters are the code points
  0..255; texts with code points beyond that range are outside the model. Within the
  range, the regular expression class \<open>\d\<close> is exactly the ASCII digits and
  \<open>str.isspace\<close> is exactly the set given by \<open>py_isspace\<close>.

  A Python \<open>float\<close> (an SQLite \<open>REAL\<close>) is modelled by its exact rational value:
  rounding to binary64 is not modelled, and the IEEE infinities and NaN are not values
  of the model (see \<open>py_float\<close>).
\<close>

datatype error =
    KeyError string
  | IndexError
  | TypeError
  | AttributeError
  | IntegrityError
  | StoreError
  | TelegramError
  | NonFiniteFloat

definition is_digit :: "char \<Rightarrow> bool" where
  "is_digit c = (48 \<le> (of_char c :: nat) \<and> (of_char c :: nat) \<le> 57)"

definition digit_val :: "char \<Rightarrow> nat" where
  "digit_val c = of_char c - 48"

definition py_isspace :: "char \<Rightarrow> bool" where
  "py_isspace c = (let n = (of_char c :: nat) in
     (9 \<le> n \<and> n \<le> 13) \<or> (28 \<le> n \<and> n \<le> 32) \<or> n = 133 \<or> n = 160)"

text \<open>\<open>str.strip()\<close> with no argument.\<close>

definition py_strip :: "string \<Rightarrow> string" where
  "py_strip s = rev (dropWhile py_isspace (rev (dropWhile py_isspace s)))"

text \<open>\<open>str.lower()\<close> on code points below 256.\<close>

definition py_lower_char :: "char \<Rightarrow> char" where
  "py_lower_char c = (let n = (of_char c :: nat) in
     if (65 \<le> n \<and> n \<le> 90) \<or> (192 \<le> n \<and> n \<le> 222 \<and> n \<noteq> 215)
     then char_of (n + 32) else c)"

definition py_lower :: "string \<Rightarrow> string" where
  "py_lower s = map py_lower_char s"

text \<open>\<open>re.sub(r'\D', '', s)\<close>: every character that is not a digit is removed.\<close>

definition re_sub_nondigits :: "string \<Rightarrow> string" where
  "re_sub_nondigits s = filter is_digit s"

text \<open>\<open>s.split(sep)\<close> for a one-character separator: never returns an empty list.\<close>

fun py_split :: "char \<Rightarrow> string \<Rightarrow> string list" where
  "py_split sep [] = [[]]"
| "py_split sep (c # cs) =
     (if c = sep then [] # py_split sep cs
      else (case py_split sep cs of
              [] \<Rightarrow> [[c]]
            | p # ps \<Rightarrow> (c # p) # ps))"

definition startswith :: "string \<Rightarrow> string \<Rightarrow> bool" where
  "startswith s p = (take (length p) s = p)"

text \<open>The builtin \<open>sum\<close>: a left fold of \<open>+\<close> that starts from 0.\<close>

definition py_sum :: "rat list \<Rightarrow> rat" where
  "py_sum xs = foldl (+) 0 xs"

subsection \<open>The builtin float on a string\<close>










section \<open>Session state (aiogram FSMContext)\<close>

text \<open>The states of \<open>OrderState\<close> and \<open>AdminState\<close>; no state set is \<open>None\<close>.\<close>

datatype fsm_state =
    awaiting_name
  | awaiting_phone
  | awaiting_address
  | awaiting_comment
  | awaiting_final_confirmation
  | awaiting_new_category_name
  | await_new_item_name
  | await_new_item_price
  | await_new_price
  | await_new_setting_value

text \<open>
  The session data is a dict that the handlers read and write under nine literal keys
  only. It is modelled as a record with one field per key: \<open>None\<close> is an absent key
  (reading it raises \<open>KeyError\<close>), and each present value has the type of the values
  the handlers store under that key. Where the stored value may itself be Python's
  \<open>None\<close> (a message without text, an unset field of a callback) the field is a
  nested option.
\<close>

record fields =
  name :: "string option option"
  phone :: "string option"
  delivery_type :: "string option"
  address :: "string option"
  comment :: "string option"
  final_total :: "rat option"
  category_id :: "int option option"
  item_id :: "int option option"
  key :: "string option option"

definition no_fields :: fields where
  "no_fields = \<lparr>name = None, phone = None, delivery_type = None, address = None,
     comment = None, final_total = None, category_id = None, item_id = None, key = None\<rparr>"

record session =
  state :: "fsm_state option"
  data :: fields

definition set_state :: "fsm_state \<Rightarrow> session \<Rightarrow> session" where
  "set_state st s = s\<lparr>state := Some st\<rparr>"

text \<open>\<open>state.set_data(d)\<close> replaces the whole dict.\<close>

definition set_data :: "fields \<Rightarrow> session \<Rightarrow> session" where
  "set_data f s = s\<lparr>data := f\<rparr>"

text \<open>\<open>state.clear()\<close> resets both the state and the data.\<close>

definition clear :: "session \<Rightarrow> session" where
  "clear s = s\<lparr>state := None, data := no_fields\<rparr>"

section \<open>The SQLite database\<close>

text \<open>
  One list of rows per table of \<open>init_db\<close>, in insertion order; an \<open>option\<close> column
  is nullable and \<open>None\<close> is NULL. The columns \<open>photo_id\<close> and \<open>created_at\<close> and the
  table \<open>admins\<close> are never read or written by the handlers and are left out.
\<close>

record category_row =
  c_id :: int
  c_name :: string

record menu_item_row =
  mi_id :: int
  mi_name :: string
  mi_description :: "string option"
  mi_price :: rat
  mi_category_id :: "int option"

record cart_row =
  ct_user_id :: int
  ct_item_id :: int
  ct_quantity :: int

record order_row =
  o_id :: int
  o_user_id :: int
  o_user_name :: "string option"
  o_phone_number :: string
  o_delivery_type :: string
  o_address :: string
  o_comment :: string
  o_total_amount :: rat
  o_status :: string

record order_item_row =
  oi_id :: int
  oi_order_id :: int
  oi_item_name :: string
  oi_quantity :: int
  oi_price_per_item :: rat

record database =
  categories :: "category_row list"
  menu_items :: "menu_item_row list"
  cart :: "cart_row list"
  orders :: "order_row list"
  order_items :: "order_item_row list"
  settings :: "(string \<times> rat) list"

text \<open>The rowid given to a new row of an \<open>INTEGER PRIMARY KEY\<close> table.\<close>

definition lastrowid :: "int list \<Rightarrow> int" where
  "lastrowid ids = (case ids of [] \<Rightarrow> 1 | x # xs \<Rightarrow> fold max xs x + 1)"


text \<open>
  \<open>SELECT mi.id, mi.name, mi.price, c.quantity FROM cart c JOIN menu_items mi
  ON c.item_id = mi.id WHERE c.user_id = ?\<close>; the query of \<open>confirm_order\<close> is the
  same without the first column.
\<close>

definition select_cart_items :: "int \<Rightarrow> database \<Rightarrow> (int \<times> string \<times> rat \<times> int) list" where
  "select_cart_items uid d =
     concat (map (\<lambda>c. map (\<lambda>mi. (mi_id mi, mi_name mi, mi_price mi, ct_quantity c))
                           (filter (\<lambda>mi. ct_item_id c = mi_id mi) (menu_items d)))
                 (filter (\<lambda>c. ct_user_id c = uid) (cart d)))"

text \<open>\<open>DELETE FROM cart WHERE user_id = ?\<close>\<close>

definition delete_cart_of_user :: "int \<Rightarrow> database \<Rightarrow> database" where
  "delete_cart_of_user uid d = d\<lparr>cart := filter (\<lambda>c. ct_user_id c \<noteq> uid) (cart d)\<rparr>"

text \<open>\<open>{key: value for key, value in settings_list}\<close>\<close>

definition settings_dict :: "(string \<times> rat) list \<Rightarrow> (string \<rightharpoonup> rat)" where
  "settings_dict rows = foldl (\<lambda>m (k, v). m(k \<mapsto> v)) Map.empty rows"

section \<open>Events, replies and the outcome of a handler\<close>

text \<open>
  An incoming message carries an optional text and an optional contact phone number;
  a callback query carries the sender and the data string of the pressed button.
\<close>

record message =
  chat_id :: int
  msg_text :: "string option"
  contact :: "string option"

record callback_query =
  from_user :: int
  cb_data :: string

text \<open>
  What a handler sends back. The wording and the keyboards of the messages are not
  modelled: each constructor stands for one call of the bot API in the source.
\<close>

datatype reply =
    Welcome
  | CartIsEmpty
  | CartIsEmptyAlert
  | AskName
  | AskPhone
  | PhoneAccepted
  | ChooseDelivery
  | BadPhoneFormat
  | MessageDeleted
  | AskAddress
  | AskComment
  | AddressTooShort
  | OrderSummary rat rat rat
  | NotifyAdmin int int
  | OrderAccepted int
  | CanOrderAgain
  | OrderCancelled
  | ContinueBrowsing
  | CategoryExists
  | CategoryAdded string
  | AskItemName
  | AskItemPrice
  | AskNewPrice
  | AskSettingValue
  | ItemAdded
  | PriceUpdated rat
  | SettingUpdated
  | PriceMustBeNumber
  | NumberOnly
  | AdminPanel
  | CategoryDeleted
  | CategoriesForDeletion

text \<open>
  A handler run ends normally or by an exception that the handler does not catch.
  In both cases the session and the database are what the statements executed up to
  that point have made them.
\<close>

record outcome =
  raised :: "error option"
  sess :: session
  db :: database
  replies :: "reply list"

definition returns :: "session \<Rightarrow> database \<Rightarrow> reply list \<Rightarrow> outcome" where
  "returns s d rs = \<lparr>raised = None, sess = s, db = d, replies = rs\<rparr>"

definition raise :: "error \<Rightarrow> session \<Rightarrow> database \<Rightarrow> reply list \<Rightarrow> outcome" where
  "raise e s d rs = \<lparr>raised = Some e, sess = s, db = d, replies = rs\<rparr>"

section \<open>Order flow (app.py, sections 5, 7, 8 and 10)\<close>

text \<open>\<open>send_welcome\<close> and \<open>show_menu\<close> clear the session before they answer.\<close>

definition send_welcome :: "message \<Rightarrow> session \<Rightarrow> database \<Rightarrow> outcome" where
  "send_welcome m s d = returns (clear s) d [Welcome]"

definition process_name :: "message \<Rightarrow> session \<Rightarrow> database \<Rightarrow> outcome" where
  "process_name m s d =
     returns (set_state awaiting_phone (s\<lparr>data := (data s)\<lparr>name := Some (msg_text m)\<rparr>\<rparr>))
             d [AskPhone]"

definition process_phone_contact :: "message \<Rightarrow> session \<Rightarrow> database \<Rightarrow> outcome" where
  "process_phone_contact m s d =
     (case contact m of
        None \<Rightarrow> raise AttributeError s d []
      | Some number \<Rightarrow>
          returns (s\<lparr>data := (data s)\<lparr>phone := Some number\<rparr>\<rparr>) d
                  [PhoneAccepted, ChooseDelivery])"

text \<open>
  \<open>process_phone_text\<close> (lines 362 to 373). The state is not set by this handler: the
  delivery choice is offered as a keyboard while the state stays \<open>awaiting_phone\<close>.
\<close>

definition process_phone_text :: "message \<Rightarrow> session \<Rightarrow> database \<Rightarrow> outcome" where
  "process_phone_text m s d =
     (case msg_text m of
        None \<Rightarrow> raise TypeError s d []
      | Some t \<Rightarrow>
          (let phone_digits = re_sub_nondigits t
           in if 10 \<le> length phone_digits \<and> length phone_digits \<le> 15
              then returns (s\<lparr>data := (data s)\<lparr>phone := Some t\<rparr>\<rparr>) d
                           [PhoneAccepted, ChooseDelivery]
              else returns s d [BadPhoneFormat]))"

definition process_address :: "message \<Rightarrow> session \<Rightarrow> database \<Rightarrow> outcome" where
  "process_address m s d =
     (case msg_text m of
        None \<Rightarrow> returns s d [AddressTooShort]
      | Some t \<Rightarrow>
          if t \<noteq> [] \<and> length t > 5
          then returns (set_state awaiting_comment (s\<lparr>data := (data s)\<lparr>address := Some t\<rparr>\<rparr>))
                       d [AskComment]
          else returns s d [AddressTooShort])"

text \<open>\<open>confirm_order\<close> (lines 180 to 216): the checkout computation.\<close>

definition confirm_order :: "int \<Rightarrow> session \<Rightarrow> database \<Rightarrow> outcome" where
  "confirm_order uid s d =
     (let dat = data s;
          cart_items = select_cart_items uid d;
          subtotal = py_sum (map (\<lambda>(_, _, price, quantity). price * of_int quantity) cart_items);
          settings = settings_dict (settings d)
      in case delivery_type dat of
           None \<Rightarrow> raise (KeyError ''delivery_type'') s d []
         | Some dt \<Rightarrow>
            (case (if dt = ''delivery'' then
                     (case settings ''free_delivery_threshold'' of
                        None \<Rightarrow> Inl (KeyError ''free_delivery_threshold'')
                      | Some threshold \<Rightarrow>
                          if subtotal < threshold then
                            (case settings ''delivery_fee'' of
                               None \<Rightarrow> Inl (KeyError ''delivery_fee'')
                             | Some fee \<Rightarrow> Inr fee)
                          else Inr 0)
                   else Inr 0) of
               Inl e \<Rightarrow> raise e s d []
             | Inr delivery_cost \<Rightarrow>
                 (let total = subtotal + delivery_cost;
                      s1 = s\<lparr>data := dat\<lparr>final_total := Some total\<rparr>\<rparr>
                  in case name dat of
                       None \<Rightarrow> raise (KeyError ''name'') s1 d []
                     | Some nm \<Rightarrow>
                        (case phone dat of
                           None \<Rightarrow> raise (KeyError ''phone'') s1 d []
                         | Some ph \<Rightarrow>
                             returns (set_state awaiting_final_confirmation s1) d
                                     [OrderSummary subtotal delivery_cost total]))))"

text \<open>
  \<open>process_comment\<close> (lines 384 to 388). The source compares the lowered, stripped
  text with three words; the first of them is written in Cyrillic letters, which no
  text of this model contains, so two remain.
\<close>

definition process_comment :: "message \<Rightarrow> session \<Rightarrow> database \<Rightarrow> outcome" where
  "process_comment m s d =
     (case msg_text m of
        None \<Rightarrow> raise AttributeError s d []
      | Some t \<Rightarrow>
          if py_strip (py_lower t) \<notin> set [''no'', ''-'']
          then confirm_order (chat_id m) (s\<lparr>data := (data s)\<lparr>comment := Some t\<rparr>\<rparr>) d
          else confirm_order (chat_id m) s d)"

text \<open>
  \<open>process_final_confirmation\<close> (lines 218 to 256). The statements from line 238 on
  write to the database and call the bot API in turn; \<open>fault\<close> names the first of
  them that raises, if any. The two inserts run on one connection that commits once:
  when one of its statements or the commit raises, the connection is closed and
  nothing of it is kept. The messages to the administrators are sent inside
  \<open>try\<close>/\<open>except\<close>, so their failure does not end the run.
\<close>

datatype fault = NoFault | TransactionFails | EditTextFails | AnswerFails | CartDeleteFails

fun insert_order_items ::
  "int \<Rightarrow> (int \<times> string \<times> rat \<times> int) list \<Rightarrow> order_item_row list \<Rightarrow> order_item_row list" where
  "insert_order_items order_id [] tbl = tbl"
| "insert_order_items order_id ((_, nm, price, quantity) # rest) tbl =
     insert_order_items order_id rest
       (tbl @ [\<lparr>oi_id = lastrowid (map oi_id tbl), oi_order_id = order_id,
                oi_item_name = nm, oi_quantity = quantity, oi_price_per_item = price\<rparr>])"

definition process_final_confirmation ::
  "int list \<Rightarrow> fault \<Rightarrow> callback_query \<Rightarrow> session \<Rightarrow> database \<Rightarrow> outcome" where
  "process_final_confirmation admin_ids f q s d =
     (let uid = from_user q;
          dat = data s;
          cart_items = select_cart_items uid d
      in if cart_items = [] then returns (clear s) d [CartIsEmpty]
         else
          (let total = (case final_total dat of None \<Rightarrow> 0 | Some v \<Rightarrow> v)
           in case delivery_type dat of
                None \<Rightarrow> raise (KeyError ''delivery_type'') s d []
              | Some dt \<Rightarrow>
             (case name dat of
                None \<Rightarrow> raise (KeyError ''name'') s d []
              | Some nm \<Rightarrow>
             (case phone dat of
                None \<Rightarrow> raise (KeyError ''phone'') s d []
              | Some ph \<Rightarrow>
                if f = TransactionFails then raise StoreError s d []
                else
                 (let order_id = lastrowid (map o_id (orders d));
                      d1 = d\<lparr>orders := orders d @
                                 [\<lparr>o_id = order_id, o_user_id = uid, o_user_name = nm,
                                   o_phone_number = ph, o_delivery_type = dt,
                                   o_address = (case address dat of None \<Rightarrow> [] | Some a \<Rightarrow> a),
                                   o_comment = (case comment dat of None \<Rightarrow> [] | Some c \<Rightarrow> c),
                                   o_total_amount = total, o_status = ''new''\<rparr>],
                             order_items := insert_order_items order_id cart_items (order_items d)\<rparr>;
                      sent = map (\<lambda>a. NotifyAdmin a order_id) admin_ids
                  in if f = EditTextFails then raise TelegramError s d1 sent
                     else if f = AnswerFails
                       then raise TelegramError s d1 (sent @ [OrderAccepted order_id])
                     else if f = CartDeleteFails
                       then raise StoreError s d1 (sent @ [OrderAccepted order_id, CanOrderAgain])
                     else returns (clear s) (delete_cart_of_user uid d1)
                                  (sent @ [OrderAccepted order_id, CanOrderAgain]))))))"

text \<open>\<open>handle_checkout\<close> (lines 480 to 488).\<close>

definition handle_checkout :: "callback_query \<Rightarrow> session \<Rightarrow> database \<Rightarrow> outcome" where
  "handle_checkout q s d =
     (let cart_exists = filter (\<lambda>c. ct_user_id c = from_user q) (cart d)
      in if cart_exists = [] then returns s d [CartIsEmptyAlert]
         else returns (set_state awaiting_name s) d [AskName])"

text \<open>\<open>handle_delivery_choice\<close> (lines 490 to 501).\<close>

definition handle_delivery_choice :: "callback_query \<Rightarrow> session \<Rightarrow> database \<Rightarrow> outcome" where
  "handle_delivery_choice q s d =
     (let parts = py_split (CHR '':'') (cb_data q)
      in if length parts < 2 then raise IndexError s d []
         else
          (let dt = parts ! 1;
               s1 = s\<lparr>data := (data s)\<lparr>delivery_type := Some dt\<rparr>\<rparr>
           in if dt = ''delivery''
              then returns (set_state awaiting_address s1) d [MessageDeleted, AskAddress]
              else returns (set_state awaiting_comment s1) d [MessageDeleted, AskComment]))"

text \<open>\<open>handle_cancel_order\<close> (lines 508 to 513).\<close>

definition handle_cancel_order :: "callback_query \<Rightarrow> session \<Rightarrow> database \<Rightarrow> outcome" where
  "handle_cancel_order q s d = returns (clear s) d [OrderCancelled, ContinueBrowsing]"

section \<open>Administration (app.py, sections 9 and 11)\<close>

definition admin_panel_command :: "message \<Rightarrow> session \<Rightarrow> database \<Rightarrow> outcome" where
  "admin_panel_command m s d = returns (clear s) d [AdminPanel]"

text \<open>\<open>process_new_category_name\<close> (lines 391 to 401).\<close>

definition process_new_category_name :: "message \<Rightarrow> session \<Rightarrow> database \<Rightarrow> outcome" where
  "process_new_category_name m s d =
     (case msg_text m of
        None \<Rightarrow> raise AttributeError s d []
      | Some t \<Rightarrow>
          (let cat_name = py_strip t;
               found = filter (\<lambda>c. c_name c = cat_name) (categories d)
           in if found \<noteq> [] then returns s d [CategoryExists]
              else returns (clear s)
                     (d\<lparr>categories := categories d @
                          [\<lparr>c_id = lastrowid (map c_id (categories d)), c_name = cat_name\<rparr>]\<rparr>)
                     [CategoryAdded cat_name, AdminPanel]))"

definition process_new_item_name :: "message \<Rightarrow> session \<Rightarrow> database \<Rightarrow> outcome" where
  "process_new_item_name m s d =
     returns (set_state await_new_item_price (s\<lparr>data := (data s)\<lparr>name := Some (msg_text m)\<rparr>\<rparr>))
             d [AskItemPrice]"




text \<open>
  The three callbacks that start an input step (lines 564 to 599) replace the whole
  dict by the one field of the step.
\<close>

definition admin_add_item :: "int option \<Rightarrow> session \<Rightarrow> database \<Rightarrow> outcome" where
  "admin_add_item cat_id s d =
     returns (set_state await_new_item_name (set_data (no_fields\<lparr>category_id := Some cat_id\<rparr>) s))
             d [AskItemName]"

definition admin_edit_price :: "int option \<Rightarrow> session \<Rightarrow> database \<Rightarrow> outcome" where
  "admin_edit_price iid s d =
     returns (set_state await_new_price (set_data (no_fields\<lparr>item_id := Some iid\<rparr>) s))
             d [AskNewPrice]"

definition admin_edit_setting :: "string option \<Rightarrow> session \<Rightarrow> database \<Rightarrow> outcome" where
  "admin_edit_setting setting_key s d =
     returns (set_state await_new_setting_value (set_data (no_fields\<lparr>key := Some setting_key\<rparr>) s))
             d [AskSettingValue]"


section \<open>Registration filters\<close>

text \<open>
  The decorators of the callback handlers of the order flow. Only the filter of
  \<open>handle_final_confirmation\<close> looks at the state of the session; the other three
  look at the data of the callback alone.
\<close>

definition handle_checkout_filter :: "callback_query \<Rightarrow> bool" where
  "handle_checkout_filter q = (cb_data q = ''checkout'')"

definition handle_delivery_choice_filter :: "callback_query \<Rightarrow> bool" where
  "handle_delivery_choice_filter q = startswith (cb_data q) ''delivery:''"

definition handle_final_confirmation_filter :: "callback_query \<Rightarrow> session \<Rightarrow> bool" where
  "handle_final_confirmation_filter q s =
     (cb_data q = ''confirm_order'' \<and> state s = Some awaiting_final_confirmation)"

definition handle_cancel_order_filter :: "callback_query \<Rightarrow> bool" where
  "handle_cancel_order_filter q = (cb_data q = ''cancel_order'')"

text \<open>\<open>F.from_user.id.in_(ADMIN_IDS)\<close>\<close>

definition is_admin :: "int list \<Rightarrow> int \<Rightarrow> bool" where
  "is_admin admin_ids uid = (uid \<in> set admin_ids)"

section \<open>Referential integrity of the tables\<close>



section \<open>Example data\<close>

text \<open>
  A shop with two categories and three items, the two settings of \<open>init_db\<close>, and the
  carts of two users: user 7 holds items 1 and 2 (subtotal 800), user 8 holds item 3.
\<close>

definition shop :: database where
  "shop =
     \<lparr>categories = [\<lparr>c_id = 1, c_name = ''Shawarma''\<rparr>, \<lparr>c_id = 2, c_name = ''Sides''\<rparr>],
      menu_items =
        [\<lparr>mi_id = 1, mi_name = ''Standard'', mi_description = None, mi_price = 230,
          mi_category_id = Some 1\<rparr>,
         \<lparr>mi_id = 2, mi_name = ''Giro'', mi_description = None, mi_price = 340,
          mi_category_id = Some 1\<rparr>,
         \<lparr>mi_id = 3, mi_name = ''Fries'', mi_description = None, mi_price = 100,
          mi_category_id = Some 2\<rparr>],
      cart =
        [\<lparr>ct_user_id = 7, ct_item_id = 1, ct_quantity = 2\<rparr>,
         \<lparr>ct_user_id = 8, ct_item_id = 3, ct_quantity = 1\<rparr>,
         \<lparr>ct_user_id = 7, ct_item_id = 2, ct_quantity = 1\<rparr>],
      orders = [],
      order_items = [],
      settings = [(''delivery_fee'', 400), (''free_delivery_threshold'', 1000)]\<rparr>"

text \<open>The same shop after user 7 has emptied the cart.\<close>

definition shop_without_cart :: database where
  "shop_without_cart = shop\<lparr>cart := [\<lparr>ct_user_id = 8, ct_item_id = 3, ct_quantity = 1\<rparr>]\<rparr>"

text \<open>User 7 in the middle of an order: name, phone, delivery and address are given.\<close>

definition mid_order :: session where
  "mid_order =
     \<lparr>state = Some awaiting_comment,
      data = no_fields\<lparr>name := Some (Some ''Ann''), phone := Some ''+7 999 123 45 67'',
                       delivery_type := Some ''delivery'', address := Some ''Main street 1''\<rparr>\<rparr>"

text \<open>User 7 at the final confirmation, with a comment and the total that was shown.\<close>

definition at_confirmation :: session where
  "at_confirmation =
     \<lparr>state = Some awaiting_final_confirmation,
      data = no_fields\<lparr>name := Some (Some ''Ann''), phone := Some ''+7 999 123 45 67'',
                       delivery_type := Some ''delivery'', address := Some ''Main street 1'',
                       comment := Some ''no onions'', final_total := Some 1200\<rparr>\<rparr>"

definition text_message :: "string \<Rightarrow> message" where
  "text_message t = \<lparr>chat_id = 7, msg_text = Some t, contact = None\<rparr>"

definition button :: "string \<Rightarrow> callback_query" where
  "button b = \<lparr>from_user = 7, cb_data = b\<rparr>"

text \<open>An administrator about to type the new price of item 1, and the name of a new category.\<close>

definition repricing :: session where
  "repricing = \<lparr>state = Some await_new_price, data = no_fields\<lparr>item_id := Some (Some 1)\<rparr>\<rparr>"

definition naming_category :: session where
  "naming_category = \<lparr>state = Some awaiting_new_category_name, data = no_fields\<rparr>"

text \<open>
  User 7 presses the checkout button of an older cart message while at the final
  confirmation, and goes through the dialogue again: another name and phone,
  takeaway, and the word for no comment.
\<close>

definition second_run :: outcome where
  "second_run =
     (let s1 = sess (handle_checkout (button ''checkout'') at_confirmation shop);
          s2 = sess (process_name (text_message ''Bob'') s1 shop);
          s3 = sess (process_phone_text (text_message ''+7 999 765 43 21'') s2 shop);
          s4 = sess (handle_delivery_choice (button ''delivery:takeaway'') s3 shop);
          s5 = sess (process_comment (text_message ''no'') s4 shop)
      in process_final_confirmation [1] NoFault (button ''confirm_order'') s5 shop)"

section \<open>Auxiliary facts\<close>



lemma py_split_nonempty: "py_split sep xs \<noteq> []"
  by (induction xs) (auto split: list.splits)

lemma hd_py_split: "hd (py_split sep xs) = takeWhile (\<lambda>c. c \<noteq> sep) xs"
  by (induction xs) (auto split: list.splits simp: py_split_nonempty)

lemma py_split_prefix:
  "sep \<notin> set p \<Longrightarrow> py_split sep (p @ sep # rest) = p # py_split sep rest"
  by (induction p) (auto split: list.splits simp: py_split_nonempty)

lemma startswith_append: "startswith s p \<Longrightarrow> s = p @ drop (length p) s"
  unfolding startswith_def by (metis append_take_drop_id)

lemma py_split_delivery:
  assumes "startswith b ''delivery:''"
  shows "\<exists>ps. py_split (CHR '':'') b
           = ''delivery'' # takeWhile (\<lambda>c. c \<noteq> CHR '':'') (drop 9 b) # ps"
proof -
  have len: "length ''delivery:'' = 9" by simp
  have "b = ''delivery:'' @ drop (length ''delivery:'') b"
    using startswith_append [OF assms] .
  then have "b = ''delivery:'' @ drop 9 b"
    unfolding len .
  then have "b = ''delivery'' @ CHR '':'' # drop 9 b"
    by simp
  then have "py_split (CHR '':'') b = ''delivery'' # py_split (CHR '':'') (drop 9 b)"
    using py_split_prefix [of "CHR '':''" "''delivery''" "drop 9 b"] by simp
  moreover obtain x xs where "py_split (CHR '':'') (drop 9 b) = x # xs"
    using py_split_nonempty [of "CHR '':''" "drop 9 b"]
    by (cases "py_split (CHR '':'') (drop 9 b)") auto
  moreover from this have "x = takeWhile (\<lambda>c. c \<noteq> CHR '':'') (drop 9 b)"
    using hd_py_split [of "CHR '':''" "drop 9 b"] by simp
  ultimately show ?thesis by simp
qed

lemmas char_defs =
  is_digit_def digit_val_def py_isspace_def py_strip_def py_lower_def py_lower_char_def



text \<open>The inserts of the order lines only append, one line per row, in the order of the rows.\<close>

lemma insert_order_items_appends:
  "\<exists>lines. insert_order_items oid rows tbl = tbl @ lines
     \<and> map (\<lambda>r. (oi_order_id r, oi_item_name r, oi_price_per_item r, oi_quantity r)) lines
       = map (\<lambda>(i, n, p, qty). (oid, n, p, qty)) rows"
proof (induction rows arbitrary: tbl)
  case Nil
  then show ?case by simp
next
  case (Cons row rows)
  obtain i n p qty where row: "row = (i, n, p, qty)" by (cases row) auto
  let ?r = "\<lparr>oi_id = lastrowid (map oi_id tbl), oi_order_id = oid,
                oi_item_name = n, oi_quantity = qty, oi_price_per_item = p\<rparr>"
  obtain lines where "insert_order_items oid rows (tbl @ [?r]) = (tbl @ [?r]) @ lines"
     and "map (\<lambda>r. (oi_order_id r, oi_item_name r, oi_price_per_item r, oi_quantity r)) lines
       = map (\<lambda>(i, n, p, qty). (oid, n, p, qty)) rows"
    using Cons.IH [of "tbl @ [?r]"] by blast
  then show ?case
    by (intro exI [of _ "?r # lines"]) (simp add: row)
qed




section \<open>The checkout computation\<close>



section \<open>The commit of an order\<close>

text \<open>
  Claim C1, as the code has it. When the user confirms and the re-read cart is not
  empty, the order row (with the total cached in the session) and one order line per
  cart row (name, price and quantity as read) are written together or not at all:
  nothing is written when a field of the session is missing or the transaction
  fails, and otherwise the order stands with all its lines. The user's cart rows are
  deleted by a later statement of its own, after the notifications and the replies:
  when no step fails the cart is cleared and the session is reset, and when a step
  after the commit of the order fails, the order stands while the cart and the
  session are left as they were. The catalog and the settings are never touched.
\<close>

theorem process_final_confirmation_commit:
  assumes "select_cart_items (from_user q) d \<noteq> []"
  shows "let out = process_final_confirmation admin_ids f q s d;
             written = (delivery_type (data s) \<noteq> None \<and> name (data s) \<noteq> None
                        \<and> phone (data s) \<noteq> None \<and> f \<noteq> TransactionFails)
         in categories (db out) = categories d \<and> menu_items (db out) = menu_items d
          \<and> settings (db out) = settings d
          \<and> (\<not> written \<longrightarrow> db out = d \<and> sess out = s \<and> raised out \<noteq> None)
          \<and> (written \<longrightarrow>
               (\<exists>ord lines.
                    orders (db out) = orders d @ [ord]
                  \<and> o_user_id ord = from_user q
                  \<and> o_total_amount ord = (case final_total (data s) of None \<Rightarrow> 0 | Some v \<Rightarrow> v)
                  \<and> order_items (db out) = order_items d @ lines
                  \<and> map (\<lambda>r. (oi_order_id r, oi_item_name r, oi_price_per_item r, oi_quantity r)) lines
                    = map (\<lambda>(i, n, p, qty). (o_id ord, n, p, qty))
                          (select_cart_items (from_user q) d))
             \<and> (f = NoFault \<longrightarrow>
                    cart (db out) = filter (\<lambda>c. ct_user_id c \<noteq> from_user q) (cart d)
                  \<and> sess out = clear s \<and> raised out = None)
             \<and> (f \<noteq> NoFault \<longrightarrow>
                    cart (db out) = cart d \<and> sess out = s \<and> raised out \<noteq> None))"
proof -
  obtain lines where lines:
    "insert_order_items (lastrowid (map o_id (orders d))) (select_cart_items (from_user q) d)
        (order_items d) = order_items d @ lines"
    "map (\<lambda>r. (oi_order_id r, oi_item_name r, oi_price_per_item r, oi_quantity r)) lines
       = map (\<lambda>(i, n, p, qty). (lastrowid (map o_id (orders d)), n, p, qty))
             (select_cart_items (from_user q) d)"
    using insert_order_items_appends by blast
  show ?thesis
    using assms lines
    by (cases f)
       (auto simp: process_final_confirmation_def Let_def returns_def raise_def
          delete_cart_of_user_def split: option.splits)
qed

theorem process_final_confirmation_commit_witness:
  "cart (db (process_final_confirmation [1] NoFault (button ''confirm_order'') at_confirmation shop))
     = [\<lparr>ct_user_id = 8, ct_item_id = 3, ct_quantity = 1\<rparr>]
   \<and> sess (process_final_confirmation [1] NoFault (button ''confirm_order'') at_confirmation shop)
     = clear at_confirmation
   \<and> raised (process_final_confirmation [1] NoFault (button ''confirm_order'') at_confirmation shop)
     = None"
  using process_final_confirmation_commit
    [of "button ''confirm_order''" shop "[1]" NoFault at_confirmation]
  by (simp add: button_def shop_def at_confirmation_def no_fields_def select_cart_items_def Let_def)

text \<open>
  Claim C1 as the specification states it fails: the reply to the user is sent
  between the commit of the order and the delete of the cart, and when it raises,
  the order of user 7 is in the database while the cart still holds the rows of
  user 7.
\<close>

theorem process_final_confirmation_counterexample:
  "orders (db (process_final_confirmation [1] EditTextFails (button ''confirm_order'')
                 at_confirmation shop))
     = [\<lparr>o_id = 1, o_user_id = 7, o_user_name = Some ''Ann'',
         o_phone_number = ''+7 999 123 45 67'', o_delivery_type = ''delivery'',
         o_address = ''Main street 1'', o_comment = ''no onions'',
         o_total_amount = 1200, o_status = ''new''\<rparr>]
   \<and> cart (db (process_final_confirmation [1] EditTextFails (button ''confirm_order'')
                 at_confirmation shop))
     = [\<lparr>ct_user_id = 7, ct_item_id = 1, ct_quantity = 2\<rparr>,
        \<lparr>ct_user_id = 8, ct_item_id = 3, ct_quantity = 1\<rparr>,
        \<lparr>ct_user_id = 7, ct_item_id = 2, ct_quantity = 1\<rparr>]"
  by (simp add: process_final_confirmation_def button_def at_confirmation_def shop_def
        no_fields_def select_cart_items_def raise_def lastrowid_def)

section \<open>Empty carts\<close>

text \<open>
  Claim C3, as the code has it. At the final confirmation, when the re-read cart is
  empty, nothing is written, the session is cleared and the empty-cart message is
  sent. At the checkout button, when the user has no cart row, nothing is written and
  the empty-cart alert is shown, and the session is left exactly as it was.
\<close>

theorem empty_cart_no_order:
  "(select_cart_items (from_user q) d = [] \<longrightarrow>
      process_final_confirmation admin_ids f q s d = returns (clear s) d [CartIsEmpty])
   \<and> (filter (\<lambda>c. ct_user_id c = from_user q) (cart d) = [] \<longrightarrow>
      handle_checkout q s d = returns s d [CartIsEmptyAlert])"
  by (simp add: process_final_confirmation_def handle_checkout_def Let_def)

theorem empty_cart_no_order_witness:
  "process_final_confirmation [1] NoFault (button ''confirm_order'') at_confirmation
       shop_without_cart
     = returns (clear at_confirmation) shop_without_cart [CartIsEmpty]
   \<and> handle_checkout (button ''checkout'') \<lparr>state = None, data = no_fields\<rparr> shop_without_cart
     = returns \<lparr>state = None, data = no_fields\<rparr> shop_without_cart [CartIsEmptyAlert]"
  using empty_cart_no_order
    [of "button ''confirm_order''" shop_without_cart "[1]" NoFault at_confirmation]
    empty_cart_no_order
    [of "button ''checkout''" shop_without_cart "[]" NoFault "\<lparr>state = None, data = no_fields\<rparr>"]
  by (simp add: button_def shop_without_cart_def shop_def select_cart_items_def)

text \<open>
  Claim C3 as the specification states it fails at the checkout button: user 7, with
  no cart row and in the middle of an order, keeps the state and the fields.
\<close>

theorem handle_checkout_counterexample:
  "cart shop_without_cart = [\<lparr>ct_user_id = 8, ct_item_id = 3, ct_quantity = 1\<rparr>]
   \<and> from_user (button ''checkout'') = 7
   \<and> sess (handle_checkout (button ''checkout'') mid_order shop_without_cart) = mid_order
   \<and> state mid_order = Some awaiting_comment"
  by (simp add: handle_checkout_def button_def shop_without_cart_def shop_def returns_def
        mid_order_def)

section \<open>The phone number\<close>

text \<open>
  Claim C4. For a message with a text in the state \<open>awaiting_phone\<close>,
  \<open>process_phone_text\<close> offers the choice of the delivery mode, and records the
  phone, if and only if the text holds between 10 and 15 digits; for every other
  text the session (state and fields) is unchanged and the only reply is the
  format error. The handler never sets the state: the offer of the delivery mode is
  a keyboard, and the state stays \<open>awaiting_phone\<close> in both cases.
\<close>

theorem process_phone_text_spec:
  assumes "msg_text m = Some t"
  shows "let n = length (filter is_digit t);
             out = process_phone_text m s d
         in raised out = None \<and> db out = d
          \<and> (ChooseDelivery \<in> set (replies out) \<longleftrightarrow> 10 \<le> n \<and> n \<le> 15)
          \<and> (10 \<le> n \<and> n \<le> 15 \<longrightarrow>
                sess out = s\<lparr>data := (data s)\<lparr>phone := Some t\<rparr>\<rparr>
              \<and> replies out = [PhoneAccepted, ChooseDelivery])
          \<and> (\<not> (10 \<le> n \<and> n \<le> 15) \<longrightarrow>
                sess out = s \<and> replies out = [BadPhoneFormat])"
  using assms
  by (simp add: process_phone_text_def re_sub_nondigits_def Let_def returns_def)

theorem process_phone_text_spec_witness:
  "replies (process_phone_text (text_message ''+7 (999) 123-45-67'') mid_order shop)
     = [PhoneAccepted, ChooseDelivery]
   \<and> sess (process_phone_text (text_message ''12345'') mid_order shop) = mid_order
   \<and> replies (process_phone_text (text_message ''12345'') mid_order shop) = [BadPhoneFormat]"
  using process_phone_text_spec [of "text_message ''+7 (999) 123-45-67''" "''+7 (999) 123-45-67''"
          mid_order shop]
        process_phone_text_spec [of "text_message ''12345''" "''12345''" mid_order shop]
  by (simp add: text_message_def is_digit_def Let_def)

section \<open>Cancelling\<close>

text \<open>
  Claim C5. \<open>handle_cancel_order\<close>, in whatever state it runs and so at the final
  confirmation, ends normally with the state reset to none and no field left, and
  with the database (orders, order lines, carts, catalog and settings) as it was.
\<close>

theorem handle_cancel_order_spec:
  "let out = handle_cancel_order q s d
   in raised out = None
    \<and> state (sess out) = None \<and> data (sess out) = no_fields
    \<and> db out = d"
  by (simp add: handle_cancel_order_def returns_def clear_def)

section \<open>Starting a flow\<close>

text \<open>
  Claim C6 does not hold of \<open>handle_checkout\<close>, which sets the state and leaves the
  fields, where \<open>admin_panel_command\<close> clears the session. User 7, at the final
  confirmation with the comment of that order, presses a checkout button: the
  session is in \<open>awaiting_name\<close> with every field of the earlier flow. Going on
  with another name and phone, takeaway and the word for no comment, the order
  that is written carries the address and the comment of the earlier flow.
\<close>

theorem handle_checkout_keeps_fields:
  "sess (handle_checkout (button ''checkout'') at_confirmation shop)
     = at_confirmation\<lparr>state := Some awaiting_name\<rparr>
   \<and> comment (data at_confirmation) = Some ''no onions''
   \<and> sess (admin_panel_command (text_message ''/admin'') at_confirmation shop)
     = \<lparr>state = None, data = no_fields\<rparr>
   \<and> orders (db second_run)
     = [\<lparr>o_id = 1, o_user_id = 7, o_user_name = Some ''Bob'',
         o_phone_number = ''+7 999 765 43 21'', o_delivery_type = ''takeaway'',
         o_address = ''Main street 1'', o_comment = ''no onions'',
         o_total_amount = 800, o_status = ''new''\<rparr>]"
  by (simp add: second_run_def handle_checkout_def process_name_def process_phone_text_def
        handle_delivery_choice_def process_comment_def confirm_order_def
        process_final_confirmation_def admin_panel_command_def
        button_def text_message_def at_confirmation_def shop_def no_fields_def
        returns_def raise_def set_state_def clear_def select_cart_items_def
        settings_dict_def py_sum_def lastrowid_def re_sub_nondigits_def char_defs Let_def
        delete_cart_of_user_def)

section \<open>Numbers typed by an administrator\<close>




section \<open>A new category\<close>

text \<open>
  Claim C8, as the code has it. For a message with a text in the state
  \<open>awaiting_new_category_name\<close>, the category is created exactly when the text,
  stripped of surrounding whitespace, is not the name of an existing category: a
  duplicate is rejected with the database and the session unchanged, and any other
  name is inserted, the session cleared and the panel shown. The stripped name is
  not tested for being empty.
\<close>

theorem process_new_category_name_spec:
  assumes "msg_text m = Some t"
  shows "((\<exists>c \<in> set (categories d). c_name c = py_strip t) \<longrightarrow>
            process_new_category_name m s d = returns s d [CategoryExists])
       \<and> (\<not> (\<exists>c \<in> set (categories d). c_name c = py_strip t) \<longrightarrow>
            process_new_category_name m s d =
              returns (clear s)
                (d\<lparr>categories := categories d @
                     [\<lparr>c_id = lastrowid (map c_id (categories d)), c_name = py_strip t\<rparr>]\<rparr>)
                [CategoryAdded (py_strip t), AdminPanel])"
  using assms
  by (auto simp: process_new_category_name_def Let_def filter_empty_conv)

theorem process_new_category_name_spec_witness:
  "process_new_category_name (text_message '' Sides '') naming_category shop
     = returns naming_category shop [CategoryExists]
   \<and> process_new_category_name (text_message ''Drinks'') naming_category shop
     = returns (clear naming_category)
         (shop\<lparr>categories := categories shop @ [\<lparr>c_id = 3, c_name = ''Drinks''\<rparr>]\<rparr>)
         [CategoryAdded ''Drinks'', AdminPanel]"
  using process_new_category_name_spec
          [of "text_message '' Sides ''" "'' Sides ''" shop naming_category]
        process_new_category_name_spec
          [of "text_message ''Drinks''" "''Drinks''" shop naming_category]
  by (simp add: text_message_def shop_def char_defs lastrowid_def)

text \<open>
  Claim C8 as the specification states it fails: a text of two spaces strips to the
  empty name, and a category with the empty name is inserted.
\<close>

theorem process_new_category_name_counterexample:
  "py_strip ''  '' = []
   \<and> categories (db (process_new_category_name (text_message ''  '') naming_category shop))
       = [\<lparr>c_id = 1, c_name = ''Shawarma''\<rparr>, \<lparr>c_id = 2, c_name = ''Sides''\<rparr>,
          \<lparr>c_id = 3, c_name = []\<rparr>]"
  by (simp add: process_new_category_name_def text_message_def shop_def returns_def
        lastrowid_def char_defs)

section \<open>Deleting a category\<close>



section \<open>The delivery choice in any state\<close>

text \<open>
  Claim C10. The filter of \<open>handle_delivery_choice\<close> reads the data of the callback
  and not the session. For every session, in whatever state and with whatever
  fields (none at all, too), a callback whose data starts with \<open>delivery:\<close> ends
  normally, stores the part of the data after the colon as the delivery type and
  leaves the other fields, and sets the state to \<open>awaiting_address\<close> when that part
  is \<open>delivery\<close> and to \<open>awaiting_comment\<close> otherwise.
\<close>

theorem handle_delivery_choice_any_state:
  assumes "handle_delivery_choice_filter q"
  shows "let dt = takeWhile (\<lambda>c. c \<noteq> CHR '':'') (drop 9 (cb_data q));
             out = handle_delivery_choice q s d
         in raised out = None
          \<and> db out = d
          \<and> data (sess out) = (data s)\<lparr>delivery_type := Some dt\<rparr>
          \<and> state (sess out) = Some (if dt = ''delivery'' then awaiting_address
                                      else awaiting_comment)"
proof -
  obtain ps where "py_split (CHR '':'') (cb_data q)
      = ''delivery'' # takeWhile (\<lambda>c. c \<noteq> CHR '':'') (drop 9 (cb_data q)) # ps"
    using py_split_delivery assms unfolding handle_delivery_choice_filter_def by blast
  then show ?thesis
    by (simp add: handle_delivery_choice_def Let_def returns_def set_state_def)
qed

theorem handle_delivery_choice_any_state_witness:
  "handle_delivery_choice_filter (button ''delivery:takeaway'')
   \<and> sess (handle_delivery_choice (button ''delivery:takeaway'')
             \<lparr>state = None, data = no_fields\<rparr> shop)
     = \<lparr>state = Some awaiting_comment, data = no_fields\<lparr>delivery_type := Some ''takeaway''\<rparr>\<rparr>
   \<and> state (sess (handle_delivery_choice (button ''delivery:delivery'') repricing shop))
     = Some awaiting_address"
proof -
  have a: "handle_delivery_choice_filter (button ''delivery:takeaway'')"
    and b: "handle_delivery_choice_filter (button ''delivery:delivery'')"
    by (simp_all add: handle_delivery_choice_filter_def startswith_def button_def)
  show ?thesis
    using a handle_delivery_choice_any_state
            [OF a, of "\<lparr>state = None, data = no_fields\<rparr>" shop]
          handle_delivery_choice_any_state [OF b, of repricing shop]
    by (simp add: button_def Let_def)
qed

end
